theory Spec2Isabelle
  imports Main
begin

section \<open>Python values\<close>

text \<open>
  The upload route and the enrichment worker handle loosely typed data: the result of
  \<^verbatim>\<open>json.loads\<close>, the rows of \<^verbatim>\<open>csv.DictReader\<close> and the
  dictionaries built by \<^verbatim>\<open>normalize_post_data\<close>. One datatype of Python values
  covers them. A dictionary is an association list in insertion order, with pairwise
  distinct keys in every dictionary the program reads or builds; its keys are values
  too, because a CSV row longer than the header carries the key \<^verbatim>\<open>None\<close>.
  A float is a finite binary fraction (mantissa and exponent), an infinity or NaN; only
  its truth value is ever inspected. Text is a list of characters with code points
  below 256.
\<close>

datatype pyfloat = Finite int int | Infinity bool | NaN

datatype datetime = Datetime nat nat nat nat nat nat nat

datatype pyval =
    PNone
  | PBool bool
  | PInt int
  | PFloat pyfloat
  | PStr string
  | PList "pyval list"
  | PDict "(pyval \<times> pyval) list"
  | PDatetime datetime

type_synonym pydict = "(pyval \<times> pyval) list"

datatype error =
    TypeError
  | AttributeError
  | ValueError
  | KeyError
  | UnicodeDecodeError
  | JSONDecodeError
  | CsvError
  | BadZipFile
  | OSError
  | ConnectionFailure

text \<open>Truth value testing, as \<^verbatim>\<open>not x\<close>, \<^verbatim>\<open>x or y\<close> and
  \<^verbatim>\<open>if x\<close> use it.\<close>

fun truthy :: "pyval \<Rightarrow> bool" where
  "truthy PNone = False"
| "truthy (PBool b) = b"
| "truthy (PInt i) = (i \<noteq> 0)"
| "truthy (PFloat (Finite m e)) = (m \<noteq> 0)"
| "truthy (PFloat (Infinity s)) = True"
| "truthy (PFloat NaN) = True"
| "truthy (PStr s) = (s \<noteq> [])"
| "truthy (PList xs) = (xs \<noteq> [])"
| "truthy (PDict kvs) = (kvs \<noteq> [])"
| "truthy (PDatetime d) = True"

definition py_or :: "pyval \<Rightarrow> pyval \<Rightarrow> pyval" where
  "py_or a b = (if truthy a then a else b)"

text \<open>\<^verbatim>\<open>d.get(k, default)\<close>; \<^verbatim>\<open>d.get(k)\<close> is the case
  \<open>default = PNone\<close>.\<close>

definition dict_get :: "pydict \<Rightarrow> string \<Rightarrow> pyval \<Rightarrow> pyval" where
  "dict_get d k dflt = (case map_of d (PStr k) of Some v \<Rightarrow> v | None \<Rightarrow> dflt)"

definition is_str :: "pyval \<Rightarrow> bool" where
  "is_str v = (case v of PStr s \<Rightarrow> True | _ \<Rightarrow> False)"

text \<open>\<^verbatim>\<open>str.isspace\<close> on one character, for code points below 256.\<close>

definition isspace :: "char \<Rightarrow> bool" where
  "isspace c = (let n = (of_char c :: nat) in
     (9 \<le> n \<and> n \<le> 13) \<or> (28 \<le> n \<and> n \<le> 32) \<or> n = 133 \<or> n = 160)"

definition py_strip :: "string \<Rightarrow> string" where
  "py_strip s = rev (dropWhile isspace (rev (dropWhile isspace s)))"

text \<open>\<^verbatim>\<open>sep.join(parts)\<close>: a part that is not a string raises TypeError.\<close>

fun py_join :: "string \<Rightarrow> pyval list \<Rightarrow> error + string" where
  "py_join sep [] = Inr []"
| "py_join sep [PStr s] = Inr s"
| "py_join sep (PStr s # v # vs) =
     (case py_join sep (v # vs) of Inl e \<Rightarrow> Inl e | Inr r \<Rightarrow> Inr (s @ sep @ r))"
| "py_join sep (_ # vs) = Inl TypeError"

section \<open>The environment of the upload route\<close>

text \<open>
  What the route takes from the Python library and the clock is a parameter of the model:
  \<open>py_repr\<close> is \<^verbatim>\<open>str\<close> on a value that is not a string,
  \<open>strptime s fmt\<close> is \<^verbatim>\<open>datetime.strptime\<close> on a string (\<open>None\<close> where
  it raises ValueError) and \<open>utcnow\<close> is the reading of the clock.
  \<open>decode_utf8\<close> is reading a file of the given bytes as UTF-8 text (\<open>None\<close>:
  UnicodeDecodeError), \<open>json_loads\<close> is \<^verbatim>\<open>json.loads\<close> (\<open>None\<close>:
  JSONDecodeError), \<open>dict_reader\<close> gives the rows that iterating
  \<^verbatim>\<open>csv.DictReader\<close> over the lines yields, or the error it raises on the way, and
  \<open>extract_walk\<close> gives, for the bytes of an archive, the files that
  \<^verbatim>\<open>os.walk\<close> finds in the upload directory after \<^verbatim>\<open>extractall\<close>, in
  the order found, each with its name and bytes, or the error of opening the archive.
  The token of \<^verbatim>\<open>uuid.uuid4()\<close> is an argument of the function that draws it.
\<close>

record env =
  py_repr :: "pyval \<Rightarrow> string"
  strptime :: "string \<Rightarrow> string \<Rightarrow> datetime option"
  utcnow :: datetime
  decode_utf8 :: "string \<Rightarrow> string option"
  json_loads :: "string \<Rightarrow> pyval option"
  dict_reader :: "string list \<Rightarrow> error + pydict list"
  extract_walk :: "string \<Rightarrow> error + (string \<times> string) list"

definition str_py :: "env \<Rightarrow> pyval \<Rightarrow> string" where
  "str_py E v = (case v of PStr s \<Rightarrow> s | _ \<Rightarrow> py_repr E v)"

section \<open>routes/upload.py: timestamps and media\<close>

definition formats :: "string list" where
  "formats = [''%Y-%m-%dT%H:%M:%SZ'', ''%Y-%m-%dT%H:%M:%S.%fZ'',
              ''%Y-%m-%d %H:%M:%S'', ''%Y-%m-%d'']"

text \<open>The loop over the formats: the first one that parses returns, and falling out of
  the loop returns the clock.\<close>

fun try_formats :: "env \<Rightarrow> string \<Rightarrow> string list \<Rightarrow> datetime" where
  "try_formats E s [] = utcnow E"
| "try_formats E s (fmt # fmts) =
     (case strptime E s fmt of Some d \<Rightarrow> d | None \<Rightarrow> try_formats E s fmts)"

text \<open>\<^verbatim>\<open>parse_timestamp\<close>. The argument is whatever the record holds; on a
  value that is true and not a string \<^verbatim>\<open>strptime\<close> raises TypeError, which the
  loop does not catch.\<close>

definition parse_timestamp :: "env \<Rightarrow> pyval \<Rightarrow> error + datetime" where
  "parse_timestamp E v =
     (if \<not> truthy v then Inr (utcnow E)
      else case v of PStr s \<Rightarrow> Inr (try_formats E s formats) | _ \<Rightarrow> Inl TypeError)"

definition image_item :: "pyval \<Rightarrow> pyval" where
  "image_item u = PDict [(PStr ''type'', PStr ''image''), (PStr ''url'', u),
                         (PStr ''filename'', PStr '''')]"

definition media_item :: "pydict \<Rightarrow> pyval" where
  "media_item item = PDict
     [(PStr ''type'', dict_get item ''type'' (PStr ''image'')),
      (PStr ''url'', dict_get item ''url'' (dict_get item ''src'' (PStr ''''))),
      (PStr ''filename'', dict_get item ''filename'' (PStr ''''))]"

fun parse_media_items :: "pyval list \<Rightarrow> pyval list" where
  "parse_media_items [] = []"
| "parse_media_items (PDict item # rest) = media_item item # parse_media_items rest"
| "parse_media_items (PStr s # rest) = image_item (PStr s) # parse_media_items rest"
| "parse_media_items (_ # rest) = parse_media_items rest"

definition parse_media :: "pyval \<Rightarrow> pyval list" where
  "parse_media media_data =
     (if \<not> truthy media_data then []
      else case media_data of
             PList items \<Rightarrow> parse_media_items items
           | PStr s \<Rightarrow> [image_item (PStr s)]
           | _ \<Rightarrow> [])"

section \<open>routes/upload.py: normalize\_post\_data\<close>

definition consumed_keys :: "string list" where
  "consumed_keys = [''platform'', ''id'', ''post_id'', ''text'', ''content'', ''message'',
     ''timestamp'', ''created_at'', ''date'', ''user_id'', ''author'', ''username'',
     ''media'', ''images'', ''videos'', ''raw_text'']"

definition text_candidate :: "pydict \<Rightarrow> pyval" where
  "text_candidate post =
     py_or (py_or (py_or (py_or (dict_get post ''raw_text'' PNone)
                                (dict_get post ''text'' PNone))
                         (dict_get post ''content'' PNone))
                  (dict_get post ''message'' PNone))
           (PStr '''')"

definition summary_parts :: "pydict \<Rightarrow> pyval list" where
  "summary_parts post =
     (if truthy (dict_get post ''title'' PNone) then [dict_get post ''title'' PNone] else []) @
     (if truthy (dict_get post ''description'' PNone)
      then [dict_get post ''description'' PNone] else []) @
     (if truthy (dict_get post ''caption'' PNone) then [dict_get post ''caption'' PNone] else [])"

definition resolve_text :: "env \<Rightarrow> pydict \<Rightarrow> error + pyval" where
  "resolve_text E post =
     (let raw_text = text_candidate post in
      if \<not> truthy raw_text then
        (if summary_parts post \<noteq> [] then
           (case py_join '' | '' (summary_parts post) of
              Inl e \<Rightarrow> Inl e
            | Inr s \<Rightarrow> Inr (PStr s))
         else Inr (PStr (''Post from '' @ str_py E (dict_get post ''platform'' (PStr ''unknown''))
                          @ '' platform'')))
      else Inr raw_text)"

definition timestamp_field :: "pydict \<Rightarrow> pyval" where
  "timestamp_field post =
     dict_get post ''timestamp'' (dict_get post ''created_at'' (dict_get post ''date'' (PStr '''')))"

definition metadata_of :: "pydict \<Rightarrow> pydict" where
  "metadata_of post = filter (\<lambda>(k, v). k \<notin> set (map PStr consumed_keys)) post"

text \<open>The body of the \<^verbatim>\<open>try\<close> block: \<open>Inl\<close> is an exception raised inside
  it, \<open>Inr None\<close> the explicit rejection, \<open>Inr (Some n)\<close> the normalized post.
  \<open>uid\<close> is the token \<^verbatim>\<open>str(uuid.uuid4())\<close> would give.\<close>

definition normalize_body :: "env \<Rightarrow> string \<Rightarrow> pydict \<Rightarrow> error + pyval option" where
  "normalize_body E uid post =
     (let post_id = py_or (py_or (dict_get post ''post_id'' PNone) (dict_get post ''id'' PNone))
                          (PStr uid)
      in case resolve_text E post of
           Inl e \<Rightarrow> Inl e
         | Inr raw_text \<Rightarrow>
            (case parse_timestamp E (timestamp_field post) of
               Inl e \<Rightarrow> Inl e
             | Inr ts \<Rightarrow>
                (let normalized = PDict
                   [(PStr ''platform'', dict_get post ''platform'' (PStr ''unknown'')),
                    (PStr ''post_id'', PStr (str_py E post_id)),
                    (PStr ''raw_text'', raw_text),
                    (PStr ''timestamp'', PDatetime ts),
                    (PStr ''user_id'', PStr (str_py E
                       (dict_get post ''user_id'' (dict_get post ''author''
                          (dict_get post ''username'' (PStr ''''))))))  ,
                    (PStr ''media'', PList (parse_media
                       (dict_get post ''media'' (dict_get post ''images''
                          (dict_get post ''videos'' (PList [])))))),
                    (PStr ''metadata'', PDict (metadata_of post))]
                 in case raw_text of
                      PStr s \<Rightarrow> if py_strip s = [] then Inr None else Inr (Some normalized)
                    | _ \<Rightarrow> Inl AttributeError)))"

text \<open>\<^verbatim>\<open>normalize_post_data\<close>: every exception of the body is caught and
  becomes \<^verbatim>\<open>None\<close>.\<close>

definition normalize_post_data :: "env \<Rightarrow> string \<Rightarrow> pydict \<Rightarrow> pyval option" where
  "normalize_post_data E uid post =
     (case normalize_body E uid post of Inl e \<Rightarrow> None | Inr r \<Rightarrow> r)"

section \<open>routes/upload.py: the format parsers\<close>

text \<open>Iterating a value with \<^verbatim>\<open>for\<close>, and \<^verbatim>\<open>len\<close> of it: a list gives
  its items, a dictionary its keys, a string its characters; nothing else is iterable.\<close>

definition py_iter :: "pyval \<Rightarrow> error + pyval list" where
  "py_iter v = (case v of
       PList xs \<Rightarrow> Inr xs
     | PDict kvs \<Rightarrow> Inr (map fst kvs)
     | PStr s \<Rightarrow> Inr (map (\<lambda>c. PStr [c]) s)
     | _ \<Rightarrow> Inl TypeError)"

text \<open>\<^verbatim>\<open>v[:50]\<close> is defined on strings and lists only.\<close>

definition sliceable :: "pyval \<Rightarrow> bool" where
  "sliceable v = (case v of PStr s \<Rightarrow> True | PList xs \<Rightarrow> True | _ \<Rightarrow> False)"

text \<open>The loop of \<^verbatim>\<open>parse_json_file\<close> over the posts. The progress line
  printed for each post calls \<^verbatim>\<open>post.get\<close>, which only a dictionary has, and
  slices the \<^verbatim>\<open>raw_text\<close> value; both can raise, outside any handler.
  \<open>uids i\<close> is the token drawn for the post of index \<open>i\<close>.\<close>

fun normalize_posts :: "env \<Rightarrow> (nat \<Rightarrow> string) \<Rightarrow> nat \<Rightarrow> pyval list \<Rightarrow> error + pyval list" where
  "normalize_posts E uids i [] = Inr []"
| "normalize_posts E uids i (PDict post # rest) =
     (if sliceable (dict_get post ''raw_text'' (PStr ''no_text'')) then
        (case normalize_posts E uids (Suc i) rest of
           Inl e \<Rightarrow> Inl e
         | Inr ns \<Rightarrow> Inr (case normalize_post_data E (uids i) post of
                            None \<Rightarrow> ns
                          | Some n \<Rightarrow> n # ns))
      else Inl TypeError)"
| "normalize_posts E uids i (_ # rest) = Inl AttributeError"

text \<open>\<^verbatim>\<open>parse_json_file\<close> after \<^verbatim>\<open>json.loads\<close>.\<close>

definition parse_json_data :: "env \<Rightarrow> (nat \<Rightarrow> string) \<Rightarrow> pyval \<Rightarrow> error + pyval list" where
  "parse_json_data E uids data =
     (case data of
        PList items \<Rightarrow> normalize_posts E uids 0 items
      | PDict kvs \<Rightarrow>
          (case map_of kvs (PStr ''posts'') of
             Some posts \<Rightarrow>
               (case py_iter posts of
                  Inl e \<Rightarrow> Inl e
                | Inr items \<Rightarrow> normalize_posts E uids 0 items)
           | None \<Rightarrow> Inl ValueError)
      | _ \<Rightarrow> Inl ValueError)"

definition parse_json_file :: "env \<Rightarrow> (nat \<Rightarrow> string) \<Rightarrow> string \<Rightarrow> error + pyval list" where
  "parse_json_file E uids bytes =
     (case decode_utf8 E bytes of
        None \<Rightarrow> Inl UnicodeDecodeError
      | Some content \<Rightarrow>
          (case json_loads E content of
             None \<Rightarrow> Inl JSONDecodeError
           | Some data \<Rightarrow> parse_json_data E uids data))"

text \<open>\<^verbatim>\<open>content.split('\\n')\<close>.\<close>

fun split_lines :: "string \<Rightarrow> string list" where
  "split_lines [] = [[]]"
| "split_lines (c # cs) =
     (if c = CHR 0x0A then [] # split_lines cs
      else (case split_lines cs of l # ls \<Rightarrow> (c # l) # ls | [] \<Rightarrow> [[c]]))"

fun normalize_rows :: "env \<Rightarrow> (nat \<Rightarrow> string) \<Rightarrow> nat \<Rightarrow> pydict list \<Rightarrow> pyval list" where
  "normalize_rows E uids i [] = []"
| "normalize_rows E uids i (row # rest) =
     (case normalize_post_data E (uids i) row of
        None \<Rightarrow> normalize_rows E uids (Suc i) rest
      | Some n \<Rightarrow> n # normalize_rows E uids (Suc i) rest)"

definition parse_csv_file :: "env \<Rightarrow> (nat \<Rightarrow> string) \<Rightarrow> string \<Rightarrow> error + pyval list" where
  "parse_csv_file E uids bytes =
     (case decode_utf8 E bytes of
        None \<Rightarrow> Inl UnicodeDecodeError
      | Some content \<Rightarrow>
          (let lines = split_lines content in
           if lines = [] then Inr []
           else case dict_reader E lines of
                  Inl e \<Rightarrow> Inl e
                | Inr rows \<Rightarrow> Inr (normalize_rows E uids 0 rows)))"

definition endswith :: "string \<Rightarrow> string \<Rightarrow> bool" where
  "endswith s suf = (length suf \<le> length s \<and> drop (length s - length suf) s = suf)"

text \<open>The loop of \<^verbatim>\<open>parse_zip_file\<close> over the files found. An exception of a
  file's parser is not handled here. \<open>U k\<close> supplies the tokens for the file of index
  \<open>k\<close>.\<close>

fun parse_walked :: "env \<Rightarrow> (nat \<Rightarrow> nat \<Rightarrow> string) \<Rightarrow> nat \<Rightarrow> (string \<times> string) list \<Rightarrow> error + pyval list" where
  "parse_walked E U k [] = Inr []"
| "parse_walked E U k ((name, bytes) # rest) =
     (if endswith name ''.json'' then
        (case parse_json_file E (U k) bytes of
           Inl e \<Rightarrow> Inl e
         | Inr json_posts \<Rightarrow>
             (case parse_walked E U (Suc k) rest of
                Inl e \<Rightarrow> Inl e
              | Inr posts \<Rightarrow> Inr (json_posts @ posts)))
      else if endswith name ''.csv'' then
        (case parse_csv_file E (U k) bytes of
           Inl e \<Rightarrow> Inl e
         | Inr csv_posts \<Rightarrow>
             (case parse_walked E U (Suc k) rest of
                Inl e \<Rightarrow> Inl e
              | Inr posts \<Rightarrow> Inr (csv_posts @ posts)))
      else parse_walked E U (Suc k) rest)"

definition parse_zip_file :: "env \<Rightarrow> (nat \<Rightarrow> nat \<Rightarrow> string) \<Rightarrow> string \<Rightarrow> error + pyval list" where
  "parse_zip_file E U bytes =
     (case extract_walk E bytes of
        Inl e \<Rightarrow> Inl e
      | Inr files \<Rightarrow> parse_walked E U 0 files)"

section \<open>routes/upload.py: upload\_file\<close>

text \<open>\<^verbatim>\<open>str.lower\<close>, for code points below 256.\<close>

definition lower_char :: "char \<Rightarrow> char" where
  "lower_char c = (let n = (of_char c :: nat) in
     if (65 \<le> n \<and> n \<le> 90) \<or> (192 \<le> n \<and> n \<le> 214) \<or> (216 \<le> n \<and> n \<le> 222)
     then char_of (n + 32) else c)"

definition py_lower :: "string \<Rightarrow> string" where
  "py_lower s = map lower_char s"

text \<open>The second component of \<^verbatim>\<open>os.path.splitext\<close> (POSIX): the part of the
  last path component from its last dot on, empty when that component has no dot or
  only dots before it.\<close>

definition splitext_ext :: "string \<Rightarrow> string" where
  "splitext_ext p =
     (let base = rev (takeWhile (\<lambda>c. c \<noteq> CHR ''/'') (rev p));
          after_dot = takeWhile (\<lambda>c. c \<noteq> CHR ''.'') (rev base);
          upto_dot = dropWhile (\<lambda>c. c \<noteq> CHR ''.'') (rev base)
      in if upto_dot = [] then []
         else if list_all (\<lambda>c. c = CHR ''.'') (tl upto_dot) then []
         else CHR ''.'' # rev after_dot)"

text \<open>\<^verbatim>\<open>os.path.join\<close> of the upload directory and the file name: an
  absolute name replaces the directory.\<close>

definition path_join :: "string \<Rightarrow> string \<Rightarrow> string" where
  "path_join dir name =
     (case name of
        [] \<Rightarrow> dir @ ''/''
      | c # cs \<Rightarrow> if c = CHR ''/'' then name else dir @ ''/'' @ name)"

text \<open>
  The effects of the route are a log of events, in the order they happen. Whether the
  file system or the database carries an effect out is a parameter \<open>io_ok\<close>; an
  effect that fails raises an exception the route does not handle.
\<close>

datatype event =
    FileSaved string string
  | UploadInserted pydict
  | PostsInserted "pyval list"
  | TaskAdded string "pyval list"

datatype detail = NoFilenameProvided | UnsupportedFileType | ErrorParsingFile error

datatype failure = HTTPException nat detail | Unhandled error

record upload_response =
  message :: string
  file_id :: string
  total_posts :: nat
  processing_status :: string

definition parse_upload :: "env \<Rightarrow> (nat \<Rightarrow> nat \<Rightarrow> string) \<Rightarrow> string \<Rightarrow> string \<Rightarrow> error + pyval list" where
  "parse_upload E U file_extension bytes =
     (if file_extension = ''.json'' then parse_json_file E (U 0) bytes
      else if file_extension = ''.csv'' then parse_csv_file E (U 0) bytes
      else if file_extension = ''.zip'' then parse_zip_file E U bytes
      else Inr [])"

definition upload_file ::
  "env \<Rightarrow> (event \<Rightarrow> bool) \<Rightarrow> (nat \<Rightarrow> nat \<Rightarrow> string) \<Rightarrow> string \<Rightarrow> event list \<Rightarrow>
   string option \<Rightarrow> string \<Rightarrow> (failure + upload_response) \<times> event list" where
  "upload_file E io_ok U fid log filename bytes =
     (case filename of
        None \<Rightarrow> (Inl (HTTPException 400 NoFilenameProvided), log)
      | Some name \<Rightarrow>
        if name = [] then (Inl (HTTPException 400 NoFilenameProvided), log)
        else
          (let file_extension = py_lower (splitext_ext name) in
           if file_extension \<notin> set [''.json'', ''.csv'', ''.zip'']
           then (Inl (HTTPException 400 UnsupportedFileType), log)
           else
             (let upload_dir = ''uploads/'' @ fid;
                  file_path = path_join upload_dir name;
                  saved = FileSaved file_path bytes
              in if \<not> io_ok saved then (Inl (Unhandled OSError), log)
                 else
                   (case parse_upload E U file_extension bytes of
                      Inl e \<Rightarrow> (Inl (HTTPException 400 (ErrorParsingFile e)), log @ [saved])
                    | Inr posts \<Rightarrow>
                       (let upload_metadata =
                              [(PStr ''file_id'', PStr fid),
                               (PStr ''filename'', PStr name),
                               (PStr ''upload_time'', PDatetime (utcnow E)),
                               (PStr ''total_posts'', PInt (int (length posts))),
                               (PStr ''status'', PStr ''uploaded''),
                               (PStr ''file_path'', PStr file_path)];
                            log1 = log @ [saved]
                        in if \<not> io_ok (UploadInserted upload_metadata)
                           then (Inl (Unhandled ConnectionFailure), log1)
                           else
                             (let log2 = log1 @ [UploadInserted upload_metadata] in
                              if posts \<noteq> [] \<and> \<not> io_ok (PostsInserted posts)
                              then (Inl (Unhandled ConnectionFailure), log2)
                              else
                                (let log3 = (if posts \<noteq> [] then log2 @ [PostsInserted posts]
                                             else log2)
                                 in (Inr \<lparr>message = ''File uploaded successfully'',
                                          file_id = fid,
                                          total_posts = length posts,
                                          processing_status = ''processing''\<rparr>,
                                     log3 @ [TaskAdded fid posts]))))))))"

section \<open>workers/tasks.py: process\_text\_simple\<close>

text \<open>The class \<^verbatim>\<open>\\w\<close> of \<^verbatim>\<open>re\<close> on text, for code points below 256;
  \<^verbatim>\<open>\\s\<close> is \<open>isspace\<close>.\<close>

definition isword :: "char \<Rightarrow> bool" where
  "isword c = (let n = (of_char c :: nat) in
     (48 \<le> n \<and> n \<le> 57) \<or> (65 \<le> n \<and> n \<le> 90) \<or> n = 95 \<or> (97 \<le> n \<and> n \<le> 122) \<or>
     n = 170 \<or> n = 178 \<or> n = 179 \<or> n = 181 \<or> n = 185 \<or> n = 186 \<or>
     (188 \<le> n \<and> n \<le> 190) \<or> (192 \<le> n \<and> n \<le> 214) \<or> (216 \<le> n \<and> n \<le> 246) \<or>
     (248 \<le> n \<and> n \<le> 255))"

fun strip_prefix :: "string \<Rightarrow> string \<Rightarrow> string option" where
  "strip_prefix [] s = Some s"
| "strip_prefix (p # ps) [] = None"
| "strip_prefix (p # ps) (c # cs) = (if p = c then strip_prefix ps cs else None)"

text \<open>
  \<^verbatim>\<open>re.sub(pattern, repl, text)\<close>: the pattern is given by its matcher, which for a
  text says whether the pattern matches at its start and, if so, the replacement and the
  length of the match. The scan goes left to right; after a match it resumes behind it.
  None of the four patterns matches the empty string, so a match has at least one
  character.
\<close>

function re_sub :: "(string \<Rightarrow> (string \<times> nat) option) \<Rightarrow> string \<Rightarrow> string" where
  "re_sub m [] = []"
| "re_sub m (c # cs) =
     (case m (c # cs) of
        None \<Rightarrow> c # re_sub m cs
      | Some (rep, n) \<Rightarrow> rep @ re_sub m (drop (n - 1) cs))"
  by pat_completeness auto
termination
  by (relation "measure (\<lambda>(m, s). length s)") auto

text \<open>\<^verbatim>\<open>://\\S+\<close>, the tail of the URL pattern.\<close>

definition url_tail :: "string \<Rightarrow> nat option" where
  "url_tail r =
     (case strip_prefix ''://'' r of
        None \<Rightarrow> None
      | Some t \<Rightarrow>
          (let run = takeWhile (\<lambda>c. \<not> isspace c) t in
           if run = [] then None else Some (3 + length run)))"

text \<open>\<^verbatim>\<open>http[s]?://\\S+\<close>: the optional \<^verbatim>\<open>s\<close> is tried first, then
  skipped.\<close>

definition match_url :: "string \<Rightarrow> (string \<times> nat) option" where
  "match_url s =
     (case strip_prefix ''http'' s of
        None \<Rightarrow> None
      | Some r \<Rightarrow>
          (case (case r of
                   [] \<Rightarrow> None
                 | c # r' \<Rightarrow> if c = CHR ''s'' then url_tail r' else None) of
             Some n \<Rightarrow> Some ([], 5 + n)
           | None \<Rightarrow>
               (case url_tail r of
                  Some n \<Rightarrow> Some ([], 4 + n)
                | None \<Rightarrow> None)))"

text \<open>\<^verbatim>\<open>@\\w+\<close>, replaced by nothing.\<close>

definition match_mention :: "string \<Rightarrow> (string \<times> nat) option" where
  "match_mention s =
     (case s of
        [] \<Rightarrow> None
      | c # r \<Rightarrow>
          if c = CHR ''@'' \<and> takeWhile isword r \<noteq> []
          then Some ([], 1 + length (takeWhile isword r)) else None)"

text \<open>\<^verbatim>\<open>#(\\w+)\<close>, replaced by the group.\<close>

definition match_hashtag :: "string \<Rightarrow> (string \<times> nat) option" where
  "match_hashtag s =
     (case s of
        [] \<Rightarrow> None
      | c # r \<Rightarrow>
          if c = CHR ''#'' \<and> takeWhile isword r \<noteq> []
          then Some (takeWhile isword r, 1 + length (takeWhile isword r)) else None)"

text \<open>\<^verbatim>\<open>\\s+\<close>, replaced by one space.\<close>

definition match_spaces :: "string \<Rightarrow> (string \<times> nat) option" where
  "match_spaces s =
     (if takeWhile isspace s \<noteq> [] then Some ('' '', length (takeWhile isspace s)) else None)"

text \<open>\<^verbatim>\<open>sub in s\<close> on strings.\<close>

fun py_in :: "string \<Rightarrow> string \<Rightarrow> bool" where
  "py_in sub [] = (sub = [])"
| "py_in sub (c # cs) = (strip_prefix sub (c # cs) \<noteq> None \<or> py_in sub cs)"

record text_result =
  cleaned_text :: string
  language :: string
  entities :: "string list"
  sentiment :: string
  sentiment_confidence :: pyfloat

definition entity_keywords :: "string list" where
  "entity_keywords = [''tech'', ''food'', ''travel'', ''music'', ''sport'', ''news'']"

definition positive_words :: "string list" where
  "positive_words = [''good'', ''great'', ''awesome'', ''love'', ''happy'', ''excellent'']"

definition negative_words :: "string list" where
  "negative_words = [''bad'', ''terrible'', ''hate'', ''awful'', ''sad'', ''disappointing'']"

text \<open>The floats \<^verbatim>\<open>0.7\<close> and \<^verbatim>\<open>0.5\<close> as the doubles they denote.\<close>

definition float_0_7 :: pyfloat where
  "float_0_7 = Finite 6305039478318694 (- 53)"

definition float_0_5 :: pyfloat where
  "float_0_5 = Finite 1 (- 1)"

definition process_text_simple :: "string \<Rightarrow> text_result" where
  "process_text_simple text =
     (let cleaned0 = re_sub match_url text;
          cleaned1 = re_sub match_mention cleaned0;
          cleaned2 = re_sub match_hashtag cleaned1;
          cleaned3 = py_strip (re_sub match_spaces cleaned2);
          found = filter (\<lambda>keyword. py_in (py_lower keyword) (py_lower text)) entity_keywords;
          text_lower = py_lower text;
          positive_count = length (filter (\<lambda>word. py_in word text_lower) positive_words);
          negative_count = length (filter (\<lambda>word. py_in word text_lower) negative_words)
      in \<lparr>cleaned_text = cleaned3,
          language = ''en'',
          entities = found,
          sentiment = (if positive_count > negative_count then ''positive''
                       else if negative_count > positive_count then ''negative''
                       else ''neutral''),
          sentiment_confidence = (if positive_count > negative_count then float_0_7
                                  else if negative_count > positive_count then float_0_7
                                  else float_0_5)\<rparr>)"

section \<open>workers/tasks.py: process\_upload\_task\<close>

text \<open>\<^verbatim>\<open>d[k] = v\<close>: an existing key keeps its place and takes the new value, a new
  key goes to the end. \<^verbatim>\<open>d.update(other)\<close> stores the items of the other
  dictionary one after the other.\<close>

fun dict_set :: "pydict \<Rightarrow> pyval \<Rightarrow> pyval \<Rightarrow> pydict" where
  "dict_set [] k v = [(k, v)]"
| "dict_set ((k', v') # rest) k v =
     (if k' = k then (k', v) # rest else (k', v') # dict_set rest k v)"

definition dict_update :: "pydict \<Rightarrow> pydict \<Rightarrow> pydict" where
  "dict_update d other = foldl (\<lambda>acc (k, v). dict_set acc k v) d other"

text \<open>The first step on a post: \<^verbatim>\<open>process_text_simple\<close> on its
  \<^verbatim>\<open>raw_text\<close> (\<^verbatim>\<open>re.sub\<close> raises TypeError on a value that is not a
  string), then \<^verbatim>\<open>post.update\<close> with the five results.\<close>

definition enrich_text :: "pydict \<Rightarrow> error + pydict" where
  "enrich_text post =
     (case dict_get post ''raw_text'' (PStr '''') of
        PStr s \<Rightarrow>
          (let text_result = process_text_simple s in
           Inr (dict_update post
                  [(PStr ''cleaned_text'', PStr (cleaned_text text_result)),
                   (PStr ''language'', PStr (language text_result)),
                   (PStr ''entities'', PList (map PStr (entities text_result))),
                   (PStr ''sentiment'', PStr (sentiment text_result)),
                   (PStr ''sentiment_confidence'', PFloat (sentiment_confidence text_result))]))
      | _ \<Rightarrow> Inl TypeError)"

text \<open>The loop over the media items; \<^verbatim>\<open>media_item.get\<close> needs a dictionary.\<close>

fun process_media :: "pyval list \<Rightarrow> pyval list \<Rightarrow> error + pyval list" where
  "process_media processed [] = Inr processed"
| "process_media processed (PDict item # rest) =
     process_media
       (processed @
          [PDict (if dict_get item ''type'' PNone = PStr ''image''
                  then dict_update item
                         [(PStr ''tags'', PList [PStr ''image'']),
                          (PStr ''caption'', PStr ''Image content''),
                          (PStr ''similarity_score'', PFloat float_0_5)]
                  else item)])
       rest"
| "process_media processed (_ # rest) = Inl AttributeError"

text \<open>Everything the loop body does to a post before the database call; the result is
  the value of \<^verbatim>\<open>post["post_id"]\<close> and the post as it is sent.\<close>

definition enrich_post :: "pydict \<Rightarrow> error + (pyval \<times> pydict)" where
  "enrich_post post =
     (case enrich_text post of
        Inl e \<Rightarrow> Inl e
      | Inr post1 \<Rightarrow>
          (case py_iter (dict_get post1 ''media'' (PList [])) of
             Inl e \<Rightarrow> Inl e
           | Inr media_items \<Rightarrow>
               (case process_media [] media_items of
                  Inl e \<Rightarrow> Inl e
                | Inr processed_media \<Rightarrow>
                    (let post2 = dict_set post1 (PStr ''media'') (PList processed_media) in
                     case map_of post2 (PStr ''post_id'') of
                       None \<Rightarrow> Inl KeyError
                     | Some pid \<Rightarrow> Inr (pid, post2)))))"

text \<open>
  The database is a parameter: \<open>update_one db pid post\<close> is the call
  \<^verbatim>\<open>update_one({"post_id": pid}, {"$set": post})\<close> on the posts collection in
  state \<open>db\<close>, giving the new state or the exception it raises; a call that raises
  has written nothing.
\<close>

definition process_post ::
  "('db \<Rightarrow> pyval \<Rightarrow> pydict \<Rightarrow> error + 'db) \<Rightarrow> 'db \<Rightarrow> pydict \<Rightarrow> error + 'db" where
  "process_post update_one db post =
     (case enrich_post post of
        Inl e \<Rightarrow> Inl e
      | Inr (pid, post') \<Rightarrow> update_one db pid post')"

text \<open>The loop over the posts, with the inner \<^verbatim>\<open>try\<close>: an exception leaves the
  counter and the database as they are and the loop goes on. The posts are dictionaries,
  as \<^verbatim>\<open>upload_file\<close> hands them over; the handler's log line reads
  \<^verbatim>\<open>post.get\<close> and raises nothing on a dictionary.\<close>

fun process_posts ::
  "('db \<Rightarrow> pyval \<Rightarrow> pydict \<Rightarrow> error + 'db) \<Rightarrow> 'db \<Rightarrow> nat \<Rightarrow> pydict list \<Rightarrow> 'db \<times> nat" where
  "process_posts update_one db processed_count [] = (db, processed_count)"
| "process_posts update_one db processed_count (post # rest) =
     (case process_post update_one db post of
        Inl e \<Rightarrow> process_posts update_one db processed_count rest
      | Inr db' \<Rightarrow> process_posts update_one db' (processed_count + 1) rest)"

record task_result =
  status :: string
  processed_count :: "nat option"
  task_error :: "error option"

text \<open>\<open>get_sync_database\<close> is the outcome of connecting: the state of the database, or
  the exception, which the outer handler turns into the status \<^verbatim>\<open>error\<close>. The
  second component is the state of the database afterwards.\<close>

definition process_upload_task ::
  "error + 'db \<Rightarrow> ('db \<Rightarrow> pyval \<Rightarrow> pydict \<Rightarrow> error + 'db) \<Rightarrow> string \<Rightarrow> pydict list \<Rightarrow>
   task_result \<times> 'db option" where
  "process_upload_task get_sync_database update_one fid posts =
     (case get_sync_database of
        Inl e \<Rightarrow> (\<lparr>status = ''error'', processed_count = None, task_error = Some e\<rparr>, None)
      | Inr db \<Rightarrow>
          (case process_posts update_one db 0 posts of
             (db', n) \<Rightarrow>
               (\<lparr>status = ''completed'', processed_count = Some n, task_error = None\<rparr>,
                Some db')))"

section \<open>Reading results, and a concrete environment\<close>

definition field :: "pyval \<Rightarrow> string \<Rightarrow> pyval" where
  "field v k = (case v of PDict d \<Rightarrow> dict_get d k PNone | _ \<Rightarrow> PNone)"

text \<open>
  The examples below run in one fixed environment. Each of its functions is a table
  with the value the Python library gives on the texts the examples use:
  \<^verbatim>\<open>str\<close> of \<^verbatim>\<open>None\<close> and of the booleans; one date that the fourth
  format parses; decoding of ASCII bytes (the byte FF occurs in no UTF-8 text); two
  JSON documents; one CSV text, whose second line has a column too many and whose third
  a column too few; one archive holding the first JSON document and a CSV file that is not
  UTF-8, and one holding the first JSON document and the CSV text.
\<close>

definition sample_repr :: "pyval \<Rightarrow> string" where
  "sample_repr v =
     (case v of
        PNone \<Rightarrow> ''None''
      | PBool b \<Rightarrow> (if b then ''True'' else ''False'')
      | _ \<Rightarrow> ''<object>'')"

definition sample_strptime :: "string \<Rightarrow> string \<Rightarrow> datetime option" where
  "sample_strptime s fmt =
     (if s = ''2024-01-15'' \<and> fmt = ''%Y-%m-%d'' then Some (Datetime 2024 1 15 0 0 0 0)
      else None)"

definition sample_decode :: "string \<Rightarrow> string option" where
  "sample_decode bytes =
     (if list_all (\<lambda>c. (of_char c :: nat) < 128) bytes then Some bytes else None)"

definition sample_json_text :: string where
  "sample_json_text =
     ''[{\"id\": \"1\", \"text\": \"a\"}, {\"id\": \"2\", \"text\": \"b\"}, {\"id\": \"3\", \"text\": \"c\"}]''"

definition sample_json_value :: pyval where
  "sample_json_value = PList
     [PDict [(PStr ''id'', PStr ''1''), (PStr ''text'', PStr ''a'')],
      PDict [(PStr ''id'', PStr ''2''), (PStr ''text'', PStr ''b'')],
      PDict [(PStr ''id'', PStr ''3''), (PStr ''text'', PStr ''c'')]]"

definition sample_json_null_text :: string where
  "sample_json_null_text = ''[{\"text\": \"ok\"}, {\"raw_text\": null, \"text\": \"t\"}]''"

definition sample_json_null_value :: pyval where
  "sample_json_null_value = PList
     [PDict [(PStr ''text'', PStr ''ok'')],
      PDict [(PStr ''raw_text'', PNone), (PStr ''text'', PStr ''t'')]]"

definition sample_json_loads :: "string \<Rightarrow> pyval option" where
  "sample_json_loads content =
     (if content = sample_json_text then Some sample_json_value
      else if content = sample_json_null_text then Some sample_json_null_value
      else None)"

definition sample_csv_lines :: "string list" where
  "sample_csv_lines = [''platform,content'', ''twitter,hello,extra'', ''reddit'', '''']"

definition sample_csv_rows :: "pydict list" where
  "sample_csv_rows =
     [[(PStr ''platform'', PStr ''twitter''), (PStr ''content'', PStr ''hello''),
       (PNone, PList [PStr ''extra''])],
      [(PStr ''platform'', PStr ''reddit''), (PStr ''content'', PNone)]]"

definition sample_dict_reader :: "string list \<Rightarrow> error + pydict list" where
  "sample_dict_reader lines =
     (if lines = sample_csv_lines then Inr sample_csv_rows else Inr [])"

definition sample_csv_text :: string where
  "sample_csv_text = ''platform,content\<newline>twitter,hello,extra\<newline>reddit\<newline>''"

definition sample_archive :: string where
  "sample_archive = ''PK-sample''"

definition sample_archive_rows :: string where
  "sample_archive_rows = ''PK-rows''"

definition sample_extract_walk :: "string \<Rightarrow> error + (string \<times> string) list" where
  "sample_extract_walk bytes =
     (if bytes = sample_archive
      then Inr [(''bundle.zip'', sample_archive), (''data.json'', sample_json_text),
                (''broken.csv'', [CHR 0xFF, CHR 0xFE])]
      else if bytes = sample_archive_rows
      then Inr [(''bundle.zip'', sample_archive_rows), (''data.json'', sample_json_text),
                (''rows.csv'', sample_csv_text)]
      else Inl BadZipFile)"

definition sample_env :: env where
  "sample_env = \<lparr>py_repr = sample_repr, strptime = sample_strptime,
                  utcnow = Datetime 2026 1 1 12 0 0 0,
                  decode_utf8 = sample_decode, json_loads = sample_json_loads,
                  dict_reader = sample_dict_reader, extract_walk = sample_extract_walk\<rparr>"

definition sample_tokens :: "nat \<Rightarrow> nat \<Rightarrow> string" where
  "sample_tokens k i = ''token''"

text \<open>A posts collection as a list of documents; \<^verbatim>\<open>update_one\<close> with
  \<^verbatim>\<open>$set\<close> changes the first document with the given \<^verbatim>\<open>post_id\<close>, if
  there is one, and never fails.\<close>

fun sample_update_one :: "pydict list \<Rightarrow> pyval \<Rightarrow> pydict \<Rightarrow> error + pydict list" where
  "sample_update_one [] pid post = Inr []"
| "sample_update_one (doc # docs) pid post =
     (if map_of doc (PStr ''post_id'') = Some pid then Inr (dict_update doc post # docs)
      else (case sample_update_one docs pid post of
              Inl e \<Rightarrow> Inl e
            | Inr docs' \<Rightarrow> Inr (doc # docs')))"

text \<open>
  Two readings of a run of the worker's loop from the database state \<open>db\<close>:
  \<open>db_after \<dots> i\<close> is the state when the first \<open>i\<close> posts have been handled, and
  \<open>post_succeeds \<dots> i\<close> says that the post of index \<open>i\<close> is enriched and
  persisted: \<open>enrich_post\<close> returns the identifier and the enriched post, and
  \<open>update_one\<close>, called in the state reached with that identifier and that post,
  returns.
\<close>

definition db_after ::
  "('db \<Rightarrow> pyval \<Rightarrow> pydict \<Rightarrow> error + 'db) \<Rightarrow> 'db \<Rightarrow> pydict list \<Rightarrow> nat \<Rightarrow> 'db" where
  "db_after update_one db posts i = fst (process_posts update_one db 0 (take i posts))"

definition post_succeeds ::
  "('db \<Rightarrow> pyval \<Rightarrow> pydict \<Rightarrow> error + 'db) \<Rightarrow> 'db \<Rightarrow> pydict list \<Rightarrow> nat \<Rightarrow> bool" where
  "post_succeeds update_one db posts i =
     (case enrich_post (posts ! i) of
        Inl e \<Rightarrow> False
      | Inr (pid, post') \<Rightarrow>
          (case update_one (db_after update_one db posts i) pid post' of
             Inl e \<Rightarrow> False
           | Inr db' \<Rightarrow> True))"

text \<open>A batch of four posts: the second has no \<^verbatim>\<open>post_id\<close>, the third a
  \<^verbatim>\<open>raw_text\<close> that is a number.\<close>

definition sample_posts :: "pydict list" where
  "sample_posts =
     [[(PStr ''post_id'', PStr ''p1''), (PStr ''raw_text'', PStr ''good'')],
      [(PStr ''raw_text'', PStr ''no id'')],
      [(PStr ''post_id'', PStr ''p3''), (PStr ''raw_text'', PInt 5)],
      [(PStr ''post_id'', PStr ''p4''), (PStr ''raw_text'', PStr ''bad''),
       (PStr ''media'', PList [PDict [(PStr ''type'', PStr ''image'')]])]]"

definition sample_db :: "pydict list" where
  "sample_db = [[(PStr ''post_id'', PStr ''p4'')], [(PStr ''post_id'', PStr ''p1'')]]"

text \<open>The two root shapes of a JSON document that \<^verbatim>\<open>parse_json_file\<close> takes
  posts from: an array, and an object with the key \<^verbatim>\<open>posts\<close>.\<close>

definition json_root_ok :: "pyval \<Rightarrow> bool" where
  "json_root_ok data =
     (case data of
        PList items \<Rightarrow> True
      | PDict kvs \<Rightarrow> map_of kvs (PStr ''posts'') \<noteq> None
      | _ \<Rightarrow> False)"

text \<open>The normalized posts of the records \<open>records\<close> that are accepted, in order;
  the record of index \<open>i\<close> draws the token \<open>uids (k + i)\<close>.\<close>

fun accepted_posts :: "env \<Rightarrow> (nat \<Rightarrow> string) \<Rightarrow> nat \<Rightarrow> pydict list \<Rightarrow> pyval list" where
  "accepted_posts E uids k [] = []"
| "accepted_posts E uids k (r # rs) =
     (case normalize_post_data E (uids k) r of
        None \<Rightarrow> []
      | Some n \<Rightarrow> [n]) @ accepted_posts E uids (Suc k) rs"

text \<open>What one file found in the upload directory contributes: the parser is chosen
  by the end of the name, and a file that is neither is skipped.\<close>

definition parse_entry :: "env \<Rightarrow> (nat \<Rightarrow> nat \<Rightarrow> string) \<Rightarrow> nat \<Rightarrow> string \<times> string \<Rightarrow> error + pyval list" where
  "parse_entry E U k entry =
     (if endswith (fst entry) ''.json'' then parse_json_file E (U k) (snd entry)
      else if endswith (fst entry) ''.csv'' then parse_csv_file E (U k) (snd entry)
      else Inr [])"

section \<open>Properties of normalize\_post\_data\<close>

lemma py_strip_empty_iff: "py_strip s = [] \<longleftrightarrow> (\<forall>c \<in> set s. isspace c)"
proof
  assume "py_strip s = []"
  then have a: "\<forall>x \<in> set (dropWhile isspace s). isspace x"
    by (simp add: py_strip_def dropWhile_eq_Nil_conv)
  have "dropWhile isspace s = []"
  proof (rule ccontr)
    assume ne: "dropWhile isspace s \<noteq> []"
    then have "\<not> isspace (hd (dropWhile isspace s))" by (rule hd_dropWhile)
    moreover have "hd (dropWhile isspace s) \<in> set (dropWhile isspace s)" using ne by simp
    ultimately show False using a by blast
  qed
  then show "\<forall>c \<in> set s. isspace c" by (simp add: dropWhile_eq_Nil_conv)
next
  assume "\<forall>c \<in> set s. isspace c"
  then show "py_strip s = []" by (auto simp: py_strip_def dest: set_dropWhileD)
qed

lemma parse_timestamp_ok:
  "\<not> truthy v \<or> is_str v \<Longrightarrow> \<exists>d. parse_timestamp E v = Inr d"
  by (cases v) (auto simp: parse_timestamp_def is_str_def)

text \<open>Once the text is resolved to a string with a character that is not white space,
  and the timestamp value does not make \<^verbatim>\<open>strptime\<close> raise, the record is accepted
  with that text.\<close>

lemma normalize_accepts_text:
  assumes rt: "resolve_text E post = Inr (PStr s)"
    and ns: "\<not> (\<forall>c \<in> set s. isspace c)"
    and ts: "\<not> truthy (timestamp_field post) \<or> is_str (timestamp_field post)"
  shows "\<exists>n. normalize_post_data E uid post = Some n \<and> field n ''raw_text'' = PStr s"
proof -
  obtain d where d: "parse_timestamp E (timestamp_field post) = Inr d"
    using parse_timestamp_ok[OF ts] by blast
  have "py_strip s \<noteq> []" using ns by (simp add: py_strip_empty_iff)
  then show ?thesis
    using rt d by (simp add: normalize_post_data_def normalize_body_def field_def dict_get_def)
qed

lemmas normalize_defs =
  normalize_post_data_def normalize_body_def resolve_text_def text_candidate_def
  summary_parts_def dict_get_def py_or_def str_py_def timestamp_field_def parse_timestamp_def
  parse_media_def metadata_of_def consumed_keys_def py_strip_def isspace_def field_def

text \<open>
  C1, as the specification states it: a record whose text candidates
  \<^verbatim>\<open>raw_text\<close>, \<^verbatim>\<open>text\<close>, \<^verbatim>\<open>content\<close>, \<^verbatim>\<open>message\<close> are absent or
  empty and that has no \<^verbatim>\<open>title\<close>, \<^verbatim>\<open>description\<close> or \<^verbatim>\<open>caption\<close> is
  rejected. The code does not do that: the record \<^verbatim>\<open>{"raw_text": ""}\<close> is accepted,
  with the placeholder text built from the platform.
\<close>

theorem normalize_empty_text_counterexample:
  "normalize_post_data sample_env ''u1'' [(PStr ''raw_text'', PStr '''')] =
     Some (PDict
       [(PStr ''platform'', PStr ''unknown''), (PStr ''post_id'', PStr ''u1''),
        (PStr ''raw_text'', PStr ''Post from unknown platform''),
        (PStr ''timestamp'', PDatetime (Datetime 2026 1 1 12 0 0 0)),
        (PStr ''user_id'', PStr ''''), (PStr ''media'', PList []),
        (PStr ''metadata'', PDict [])])"
  by (simp add: normalize_defs sample_env_def)

text \<open>
  C1, amended: for every record whose four text candidates are absent or empty (not
  true), whose \<^verbatim>\<open>title\<close>, \<^verbatim>\<open>description\<close> and \<^verbatim>\<open>caption\<close> are absent
  or empty, and whose timestamp value is absent, empty or a string,
  \<^verbatim>\<open>normalize_post_data\<close> accepts the record, and the accepted post has the text
  \<^verbatim>\<open>Post from {platform} platform\<close>, the platform being \<^verbatim>\<open>unknown\<close> when the
  record has none.
\<close>

theorem normalize_empty_text_placeholder:
  assumes "\<not> truthy (dict_get post ''raw_text'' PNone)"
    and "\<not> truthy (dict_get post ''text'' PNone)"
    and "\<not> truthy (dict_get post ''content'' PNone)"
    and "\<not> truthy (dict_get post ''message'' PNone)"
    and "\<not> truthy (dict_get post ''title'' PNone)"
    and "\<not> truthy (dict_get post ''description'' PNone)"
    and "\<not> truthy (dict_get post ''caption'' PNone)"
    and ts: "\<not> truthy (timestamp_field post) \<or> is_str (timestamp_field post)"
  shows "\<exists>n. normalize_post_data E uid post = Some n \<and>
           field n ''raw_text'' =
             PStr (''Post from '' @ str_py E (dict_get post ''platform'' (PStr ''unknown''))
                   @ '' platform'')"
proof -
  let ?s = "''Post from '' @ str_py E (dict_get post ''platform'' (PStr ''unknown''))
            @ '' platform''"
  have rt: "resolve_text E post = Inr (PStr ?s)"
    using assms(1-7)
    by (simp add: resolve_text_def text_candidate_def summary_parts_def py_or_def)
  have "CHR ''P'' \<in> set ?s" by simp
  moreover have "\<not> isspace CHR ''P''" by (simp add: isspace_def)
  ultimately have ns: "\<not> (\<forall>c \<in> set ?s. isspace c)" by blast
  show ?thesis by (rule normalize_accepts_text[OF rt ns ts])
qed

theorem normalize_empty_text_placeholder_witness:
  "\<exists>n. normalize_post_data sample_env ''u7''
          [(PStr ''platform'', PStr ''twitter''), (PStr ''raw_text'', PStr ''''),
           (PStr ''likes'', PInt 3)] = Some n \<and>
        field n ''raw_text'' = PStr ''Post from twitter platform''"
proof -
  let ?p = "[(PStr ''platform'', PStr ''twitter''), (PStr ''raw_text'', PStr ''''),
             (PStr ''likes'', PInt 3)]"
  have h: "\<not> truthy (dict_get ?p ''raw_text'' PNone)" "\<not> truthy (dict_get ?p ''text'' PNone)"
     "\<not> truthy (dict_get ?p ''content'' PNone)" "\<not> truthy (dict_get ?p ''message'' PNone)"
     "\<not> truthy (dict_get ?p ''title'' PNone)" "\<not> truthy (dict_get ?p ''description'' PNone)"
     "\<not> truthy (dict_get ?p ''caption'' PNone)"
     "\<not> truthy (timestamp_field ?p) \<or> is_str (timestamp_field ?p)"
    by (simp_all add: dict_get_def timestamp_field_def)
  from normalize_empty_text_placeholder[OF h, of sample_env "''u7''"] show ?thesis
    by (simp add: str_py_def dict_get_def)
qed

text \<open>
  C2, as the specification states it: a record with a non-empty string among its text
  candidates is never rejected. The code rejects the record \<^verbatim>\<open>{"text": " "}\<close>,
  whose text is one space.
\<close>

theorem normalize_blank_text_counterexample:
  "normalize_post_data sample_env ''u1'' [(PStr ''text'', PStr '' '')] = None"
  by (simp add: normalize_defs sample_env_def)

text \<open>
  C2, amended: for every record in which the first non-empty value among
  \<^verbatim>\<open>raw_text\<close>, \<^verbatim>\<open>text\<close>, \<^verbatim>\<open>content\<close>, \<^verbatim>\<open>message\<close>, in this order,
  is a string with at least one character that is not white space, and whose timestamp
  value is absent, empty or a string, \<^verbatim>\<open>normalize_post_data\<close> does not reject: it
  returns a normalized post with that string as its text.
\<close>

theorem normalize_accepts_nonblank_text:
  assumes tc: "text_candidate post = PStr s"
    and ns: "\<not> (\<forall>c \<in> set s. isspace c)"
    and ts: "\<not> truthy (timestamp_field post) \<or> is_str (timestamp_field post)"
  shows "\<exists>n. normalize_post_data E uid post = Some n \<and> field n ''raw_text'' = PStr s"
proof -
  have "s \<noteq> []" using ns by auto
  then have rt: "resolve_text E post = Inr (PStr s)"
    using tc by (simp add: resolve_text_def)
  show ?thesis by (rule normalize_accepts_text[OF rt ns ts])
qed

theorem normalize_accepts_nonblank_text_witness:
  "\<exists>n. normalize_post_data sample_env ''u2''
          [(PStr ''id'', PStr ''1''), (PStr ''text'', PStr ''I love this #great day!''),
           (PStr ''platform'', PStr ''twitter'')] = Some n \<and>
        field n ''raw_text'' = PStr ''I love this #great day!''"
proof -
  let ?p = "[(PStr ''id'', PStr ''1''), (PStr ''text'', PStr ''I love this #great day!''),
             (PStr ''platform'', PStr ''twitter'')]"
  have h1: "text_candidate ?p = PStr ''I love this #great day!''"
    by (simp add: text_candidate_def dict_get_def py_or_def)
  have h2: "\<not> (\<forall>c \<in> set ''I love this #great day!''. isspace c)"
    by (simp add: isspace_def)
  have h3: "\<not> truthy (timestamp_field ?p) \<or> is_str (timestamp_field ?p)"
    by (simp add: dict_get_def timestamp_field_def)
  from normalize_accepts_nonblank_text[OF h1 h2 h3, of sample_env "''u2''"] show ?thesis .
qed

lemma map_of_filter_keys:
  "map_of (filter (\<lambda>(k, v). P k) xs) k = (if P k then map_of xs k else None)"
  by (induction xs) auto

text \<open>
  C10: for every accepted record, the \<^verbatim>\<open>metadata\<close> of the normalized post is the
  input record restricted to the keys outside the fixed list of sixteen consumed keys;
  \<^verbatim>\<open>title\<close>, \<^verbatim>\<open>description\<close> and \<^verbatim>\<open>caption\<close> are not in that list, so
  the metadata holds them exactly as the record does, also when they made up the text.
\<close>

theorem metadata_is_unconsumed_rest:
  assumes "normalize_post_data E uid post = Some n"
  shows "field n ''metadata'' =
           PDict (filter (\<lambda>(k, v). k \<notin> PStr ` {''platform'', ''id'', ''post_id'', ''text'',
              ''content'', ''message'', ''timestamp'', ''created_at'', ''date'', ''user_id'',
              ''author'', ''username'', ''media'', ''images'', ''videos'', ''raw_text''}) post)
         \<and> field (field n ''metadata'') ''title'' = dict_get post ''title'' PNone
         \<and> field (field n ''metadata'') ''description'' = dict_get post ''description'' PNone
         \<and> field (field n ''metadata'') ''caption'' = dict_get post ''caption'' PNone"
proof -
  have n: "field n ''metadata'' = PDict (metadata_of post)"
    using assms
    by (auto simp: normalize_post_data_def normalize_body_def field_def dict_get_def Let_def
        split: sum.splits pyval.splits if_splits)
  have m: "metadata_of post =
             filter (\<lambda>(k, v). k \<notin> PStr ` {''platform'', ''id'', ''post_id'', ''text'',
               ''content'', ''message'', ''timestamp'', ''created_at'', ''date'', ''user_id'',
               ''author'', ''username'', ''media'', ''images'', ''videos'', ''raw_text''}) post"
    by (simp add: metadata_of_def consumed_keys_def)
  have k: "\<And>k. k \<notin> set consumed_keys \<Longrightarrow>
              field (PDict (metadata_of post)) k = dict_get post k PNone"
    by (simp add: field_def dict_get_def metadata_of_def map_of_filter_keys image_iff)
  show ?thesis using n m k by (simp add: consumed_keys_def)
qed

theorem metadata_is_unconsumed_rest_witness:
  "normalize_post_data sample_env ''u3''
     [(PStr ''title'', PStr ''Sale''), (PStr ''user_id'', PStr ''shop''),
      (PStr ''caption'', PStr ''50% off'')] =
     Some (PDict
       [(PStr ''platform'', PStr ''unknown''), (PStr ''post_id'', PStr ''u3''),
        (PStr ''raw_text'', PStr ''Sale | 50% off''),
        (PStr ''timestamp'', PDatetime (Datetime 2026 1 1 12 0 0 0)),
        (PStr ''user_id'', PStr ''shop''), (PStr ''media'', PList []),
        (PStr ''metadata'',
         PDict [(PStr ''title'', PStr ''Sale''), (PStr ''caption'', PStr ''50% off'')])])
   \<and> field (PDict [(PStr ''title'', PStr ''Sale''), (PStr ''caption'', PStr ''50% off'')])
        ''title'' = PStr ''Sale''"
proof -
  let ?p = "[(PStr ''title'', PStr ''Sale''), (PStr ''user_id'', PStr ''shop''),
             (PStr ''caption'', PStr ''50% off'')]"
  let ?n = "PDict
       [(PStr ''platform'', PStr ''unknown''), (PStr ''post_id'', PStr ''u3''),
        (PStr ''raw_text'', PStr ''Sale | 50% off''),
        (PStr ''timestamp'', PDatetime (Datetime 2026 1 1 12 0 0 0)),
        (PStr ''user_id'', PStr ''shop''), (PStr ''media'', PList []),
        (PStr ''metadata'',
         PDict [(PStr ''title'', PStr ''Sale''), (PStr ''caption'', PStr ''50% off'')])]"
  have h: "normalize_post_data sample_env ''u3'' ?p = Some ?n"
    by (simp add: normalize_defs sample_env_def)
  from metadata_is_unconsumed_rest[OF h] have
    "field (field ?n ''metadata'') ''title'' = dict_get ?p ''title'' PNone" by blast
  then have "field (PDict [(PStr ''title'', PStr ''Sale''), (PStr ''caption'', PStr ''50% off'')])
        ''title'' = PStr ''Sale''"
    by (simp add: field_def dict_get_def)
  with h show ?thesis by blast
qed

section \<open>Properties of parse\_timestamp and parse\_media\<close>

text \<open>
  C3: on every string \<^verbatim>\<open>parse_timestamp\<close> returns a datetime and raises nothing.
  The empty string gives the current time; otherwise the result is that of the first of
  the four formats, taken in the order of the list, that parses the string, and the
  current time when none of them does.
\<close>

theorem parse_timestamp_total:
  "parse_timestamp E (PStr s) =
     Inr (if s = [] then utcnow E
          else case List.map_filter (strptime E s)
                      [''%Y-%m-%dT%H:%M:%SZ'', ''%Y-%m-%dT%H:%M:%S.%fZ'',
                       ''%Y-%m-%d %H:%M:%S'', ''%Y-%m-%d''] of
                 [] \<Rightarrow> utcnow E
               | d # ds \<Rightarrow> d)"
  by (auto simp: parse_timestamp_def formats_def List.map_filter_simps split: option.splits)

theorem parse_timestamp_total_witness:
  "parse_timestamp sample_env (PStr ''2024-01-15'') = Inr (Datetime 2024 1 15 0 0 0 0)
   \<and> parse_timestamp sample_env (PStr ''yesterday'') = Inr (Datetime 2026 1 1 12 0 0 0)"
  using parse_timestamp_total[of sample_env "''2024-01-15''"]
        parse_timestamp_total[of sample_env "''yesterday''"]
  by (simp add: sample_env_def sample_strptime_def List.map_filter_simps)

lemma parse_media_items_concat:
  "parse_media_items items =
     concat (map (\<lambda>item. case item of
                     PDict d \<Rightarrow> [media_item d]
                   | PStr s \<Rightarrow> [image_item (PStr s)]
                   | _ \<Rightarrow> []) items)"
  by (induction items rule: parse_media_items.induct) auto

text \<open>
  C4, as the specification states it: a single bare string becomes a one-element list
  holding an image item with that string as url. On the empty string the code returns
  the empty list.
\<close>

theorem parse_media_empty_string_counterexample:
  "parse_media (PStr '''') = []"
  by (simp add: parse_media_def)

text \<open>
  C4, amended: \<^verbatim>\<open>parse_media\<close> returns a list on every value and raises nothing.
  On a list, each entry that is a dictionary gives the item with \<^verbatim>\<open>type\<close>
  (\<^verbatim>\<open>image\<close> when the key is missing), \<^verbatim>\<open>url\<close> (the value of \<^verbatim>\<open>url\<close>,
  else of \<^verbatim>\<open>src\<close>, else empty) and \<^verbatim>\<open>filename\<close>; each entry that is a string
  gives an image item with that string as url; any other entry gives nothing. A single
  string that is not empty gives one image item with that string as url. Every other
  value, the empty string and an absent value among them, gives the empty list.
\<close>

theorem parse_media_total:
  "parse_media (PList items) =
     concat (map (\<lambda>item. case item of
        PDict d \<Rightarrow>
          [PDict [(PStr ''type'',
                    case map_of d (PStr ''type'') of Some t \<Rightarrow> t | None \<Rightarrow> PStr ''image''),
                  (PStr ''url'',
                    case map_of d (PStr ''url'') of
                      Some u \<Rightarrow> u
                    | None \<Rightarrow> (case map_of d (PStr ''src'') of
                                  Some u \<Rightarrow> u | None \<Rightarrow> PStr '''')),
                  (PStr ''filename'',
                    case map_of d (PStr ''filename'') of Some f \<Rightarrow> f | None \<Rightarrow> PStr '''')]]
      | PStr s \<Rightarrow>
          [PDict [(PStr ''type'', PStr ''image''), (PStr ''url'', PStr s),
                  (PStr ''filename'', PStr '''')]]
      | _ \<Rightarrow> []) items)
   \<and> parse_media (PStr s) =
       (if s = [] then []
        else [PDict [(PStr ''type'', PStr ''image''), (PStr ''url'', PStr s),
                     (PStr ''filename'', PStr '''')]])
   \<and> parse_media PNone = []
   \<and> parse_media (PBool b) = []
   \<and> parse_media (PInt i) = []
   \<and> parse_media (PFloat f) = []
   \<and> parse_media (PDict kvs) = []
   \<and> parse_media (PDatetime t) = []"
proof -
  have "parse_media (PList items) = parse_media_items items"
    by (cases items) (simp_all add: parse_media_def)
  then show ?thesis
    by (simp add: parse_media_items_concat parse_media_def media_item_def image_item_def
        dict_get_def cong: pyval.case_cong)
qed

theorem parse_media_total_witness:
  "parse_media (PList [PDict [(PStr ''src'', PStr ''a.png'')], PStr ''b.png'', PInt 7]) =
     [PDict [(PStr ''type'', PStr ''image''), (PStr ''url'', PStr ''a.png''),
             (PStr ''filename'', PStr '''')],
      PDict [(PStr ''type'', PStr ''image''), (PStr ''url'', PStr ''b.png''),
             (PStr ''filename'', PStr '''')]]"
  using parse_media_total[of "[PDict [(PStr ''src'', PStr ''a.png'')], PStr ''b.png'', PInt 7]"]
  by simp

section \<open>Properties of the enrichment worker\<close>

lemma map_of_dict_set:
  "map_of (dict_set d k v) k' = (if k' = k then Some v else map_of d k')"
  by (induction d) auto

lemma dict_set_same: "map_of d k = Some v \<Longrightarrow> dict_set d k v = d"
  by (induction d) (auto split: if_splits)

lemma dict_get_dict_set:
  "dict_get (dict_set d (PStr k) v) k' dflt = (if k' = k then v else dict_get d k' dflt)"
  by (simp add: dict_get_def map_of_dict_set)

text \<open>
  C5: text enrichment is deterministic and idempotent. \<^verbatim>\<open>process_text_simple\<close>
  reads nothing but its argument, so it is a function of the text. Enriching a post
  leaves its \<^verbatim>\<open>raw_text\<close> as it was, and a second run, on the post the first run
  produced, computes from the same text and stores the same \<^verbatim>\<open>cleaned_text\<close>,
  \<^verbatim>\<open>language\<close>, \<^verbatim>\<open>entities\<close>, \<^verbatim>\<open>sentiment\<close> and
  \<^verbatim>\<open>sentiment_confidence\<close>: it changes nothing.
\<close>

theorem enrich_text_idempotent:
  assumes "dict_get post ''raw_text'' (PStr '''') = PStr s"
  shows "\<exists>post'. enrich_text post = Inr post'
           \<and> dict_get post' ''raw_text'' (PStr '''') = PStr s
           \<and> enrich_text post' = Inr post'
           \<and> dict_get post' ''cleaned_text'' PNone = PStr (cleaned_text (process_text_simple s))
           \<and> dict_get post' ''language'' PNone = PStr (language (process_text_simple s))
           \<and> dict_get post' ''entities'' PNone =
               PList (map PStr (entities (process_text_simple s)))
           \<and> dict_get post' ''sentiment'' PNone = PStr (sentiment (process_text_simple s))
           \<and> dict_get post' ''sentiment_confidence'' PNone =
               PFloat (sentiment_confidence (process_text_simple s))"
proof -
  let ?r = "process_text_simple s"
  let ?u = "[(PStr ''cleaned_text'', PStr (cleaned_text ?r)),
             (PStr ''language'', PStr (language ?r)),
             (PStr ''entities'', PList (map PStr (entities ?r))),
             (PStr ''sentiment'', PStr (sentiment ?r)),
             (PStr ''sentiment_confidence'', PFloat (sentiment_confidence ?r))]"
  let ?p = "dict_update post ?u"
  have e1: "enrich_text post = Inr ?p"
    using assms by (simp add: enrich_text_def Let_def)
  have g: "dict_get ?p ''raw_text'' (PStr '''') = PStr s"
    using assms by (simp add: dict_update_def dict_get_dict_set)
  have same: "dict_update ?p ?u = ?p"
    by (simp add: dict_update_def dict_set_same map_of_dict_set)
  have e2: "enrich_text ?p = Inr ?p"
    using g same by (simp add: enrich_text_def Let_def)
  have f: "dict_get ?p ''cleaned_text'' PNone = PStr (cleaned_text ?r)"
     "dict_get ?p ''language'' PNone = PStr (language ?r)"
     "dict_get ?p ''entities'' PNone = PList (map PStr (entities ?r))"
     "dict_get ?p ''sentiment'' PNone = PStr (sentiment ?r)"
     "dict_get ?p ''sentiment_confidence'' PNone = PFloat (sentiment_confidence ?r)"
    by (simp_all add: dict_update_def dict_get_dict_set)
  show ?thesis using e1 g e2 f by blast
qed

theorem enrich_text_idempotent_witness:
  "\<exists>post'. enrich_text [(PStr ''post_id'', PStr ''p1''),
                         (PStr ''raw_text'', PStr ''I love #tech @bob'')] = Inr post'
     \<and> enrich_text post' = Inr post'
     \<and> dict_get post' ''cleaned_text'' PNone = PStr ''I love tech''
     \<and> dict_get post' ''entities'' PNone = PList [PStr ''tech'']
     \<and> dict_get post' ''sentiment'' PNone = PStr ''positive''"
proof -
  let ?p = "[(PStr ''post_id'', PStr ''p1''), (PStr ''raw_text'', PStr ''I love #tech @bob'')]"
  have h: "dict_get ?p ''raw_text'' (PStr '''') = PStr ''I love #tech @bob''"
    by (simp add: dict_get_def)
  have r: "cleaned_text (process_text_simple ''I love #tech @bob'') = ''I love tech''"
    "entities (process_text_simple ''I love #tech @bob'') = [''tech'']"
    "sentiment (process_text_simple ''I love #tech @bob'') = ''positive''"
    by code_simp+
  from enrich_text_idempotent[OF h] r show ?thesis by auto
qed

lemma process_posts_append:
  "process_posts u db c (xs @ ys) =
     process_posts u (fst (process_posts u db c xs)) (snd (process_posts u db c xs)) ys"
  by (induction xs arbitrary: db c) (auto split: sum.splits)

lemma process_posts_snoc:
  "process_posts u db 0 (xs @ [x]) =
    (case process_post u (fst (process_posts u db 0 xs)) x of
       Inl e \<Rightarrow> process_posts u db 0 xs
     | Inr db' \<Rightarrow> (db', snd (process_posts u db 0 xs) + 1))"
  by (simp add: process_posts_append split: sum.splits)

lemma post_succeeds_loop:
  "post_succeeds u db posts i =
     (case process_post u (db_after u db posts i) (posts ! i) of
        Inl e \<Rightarrow> False
      | Inr db' \<Rightarrow> True)"
  by (simp add: post_succeeds_def process_post_def split: sum.splits prod.splits)

lemma db_after_step:
  assumes "i < length posts"
  shows "db_after u db posts (Suc i) =
     (case process_post u (db_after u db posts i) (posts ! i) of
        Inl e \<Rightarrow> db_after u db posts i
      | Inr db' \<Rightarrow> db')"
  using assms
  by (simp add: db_after_def take_Suc_conv_app_nth process_posts_snoc split: sum.splits)

lemma count_is_successes:
  "snd (process_posts u db 0 posts) =
     length (filter (post_succeeds u db posts) [0..<length posts])"
proof (induction posts rule: rev_induct)
  case Nil
  then show ?case by simp
next
  case (snoc x xs)
  have pre: "\<And>i. i < length xs \<Longrightarrow>
               post_succeeds u db (xs @ [x]) i = post_succeeds u db xs i"
    by (simp add: post_succeeds_loop db_after_def nth_append)
  have f: "filter (post_succeeds u db (xs @ [x])) [0..<length xs] =
           filter (post_succeeds u db xs) [0..<length xs]"
    by (rule filter_cong) (auto simp: pre)
  have l: "post_succeeds u db (xs @ [x]) (length xs) =
            (case process_post u (fst (process_posts u db 0 xs)) x of
               Inl e \<Rightarrow> False
             | Inr d \<Rightarrow> True)"
    by (simp add: post_succeeds_loop db_after_def)
  show ?case using snoc.IH
    by (simp add: process_posts_snoc f l split: sum.splits)
qed

lemma failing_post_removable:
  assumes "\<not> post_succeeds u db (xs @ bad # ys) (length xs)"
  shows "process_posts u db 0 (xs @ bad # ys) = process_posts u db 0 (xs @ ys)"
proof -
  obtain e where "process_post u (fst (process_posts u db 0 xs)) bad = Inl e"
    using assms by (auto simp: post_succeeds_loop db_after_def split: sum.splits)
  then show ?thesis by (simp add: process_posts_append)
qed

lemma map_of_dict_update5:
  "map_of (dict_update d [(k1, v1), (k2, v2), (k3, v3), (k4, v4), (k5, v5)]) k =
     (if k = k5 then Some v5 else if k = k4 then Some v4 else if k = k3 then Some v3
      else if k = k2 then Some v2 else if k = k1 then Some v1 else map_of d k)"
  by (simp add: dict_update_def map_of_dict_set)

text \<open>What \<open>enrich_post\<close> hands to the database call: the post's own
  \<^verbatim>\<open>post_id\<close>, and the post with its \<^verbatim>\<open>raw_text\<close> and the five results of
  \<^verbatim>\<open>process_text_simple\<close> on that text.\<close>

lemma enrich_post_result:
  assumes "enrich_post post = Inr (pid, post')"
  shows "map_of post (PStr ''post_id'') = Some pid
       \<and> map_of post' (PStr ''post_id'') = Some pid
       \<and> (\<exists>s. dict_get post ''raw_text'' (PStr '''') = PStr s
             \<and> dict_get post' ''raw_text'' (PStr '''') = PStr s
             \<and> dict_get post' ''cleaned_text'' PNone = PStr (cleaned_text (process_text_simple s))
             \<and> dict_get post' ''language'' PNone = PStr (language (process_text_simple s))
             \<and> dict_get post' ''entities'' PNone =
                 PList (map PStr (entities (process_text_simple s)))
             \<and> dict_get post' ''sentiment'' PNone = PStr (sentiment (process_text_simple s))
             \<and> dict_get post' ''sentiment_confidence'' PNone =
                 PFloat (sentiment_confidence (process_text_simple s)))"
proof -
  from assms obtain post1 pm where
    e1: "enrich_text post = Inr post1" and
    p2: "post' = dict_set post1 (PStr ''media'') (PList pm)" and
    pid: "map_of (dict_set post1 (PStr ''media'') (PList pm)) (PStr ''post_id'') = Some pid"
    by (auto simp: enrich_post_def Let_def split: sum.splits option.splits)
  from e1 obtain s where s: "dict_get post ''raw_text'' (PStr '''') = PStr s"
    and p1: "post1 = dict_update post
               [(PStr ''cleaned_text'', PStr (cleaned_text (process_text_simple s))),
                (PStr ''language'', PStr (language (process_text_simple s))),
                (PStr ''entities'', PList (map PStr (entities (process_text_simple s)))),
                (PStr ''sentiment'', PStr (sentiment (process_text_simple s))),
                (PStr ''sentiment_confidence'',
                 PFloat (sentiment_confidence (process_text_simple s)))]"
    by (auto simp: enrich_text_def Let_def split: pyval.splits)
  have a: "map_of post (PStr ''post_id'') = Some pid"
    using pid by (simp add: p1 map_of_dict_set map_of_dict_update5)
  have b: "map_of post' (PStr ''post_id'') = Some pid" using pid p2 by simp
  have c: "dict_get post' ''raw_text'' (PStr '''') = PStr s"
    using s by (simp add: p2 p1 dict_get_def map_of_dict_set map_of_dict_update5)
  have d: "dict_get post' ''cleaned_text'' PNone = PStr (cleaned_text (process_text_simple s))"
     "dict_get post' ''language'' PNone = PStr (language (process_text_simple s))"
     "dict_get post' ''entities'' PNone = PList (map PStr (entities (process_text_simple s)))"
     "dict_get post' ''sentiment'' PNone = PStr (sentiment (process_text_simple s))"
     "dict_get post' ''sentiment_confidence'' PNone =
        PFloat (sentiment_confidence (process_text_simple s))"
    by (simp_all add: p2 p1 dict_get_def map_of_dict_set map_of_dict_update5)
  show ?thesis using a b s c d by blast
qed

lemma db_after_success:
  assumes "i < length posts" "enrich_post (posts ! i) = Inr (pid, post')"
    "u (db_after u db posts i) pid post' = Inr db'"
  shows "db_after u db posts (Suc i) = db'"
  using assms by (simp add: db_after_step process_post_def)

lemma post_succeeds_iff:
  "post_succeeds u db posts i \<longleftrightarrow>
     (\<exists>pid post' db'. enrich_post (posts ! i) = Inr (pid, post')
        \<and> u (db_after u db posts i) pid post' = Inr db')"
  by (auto simp: post_succeeds_def split: sum.splits prod.splits)

text \<open>
  C9: once the database is reached, \<^verbatim>\<open>process_upload_task\<close> returns the status
  \<^verbatim>\<open>completed\<close> for every batch, with \<^verbatim>\<open>processed_count\<close> the number of
  posts that were enriched and persisted: the posts for which \<open>enrich_post\<close> returned
  and \<open>update_one\<close>, called in the state reached with the post's
  \<^verbatim>\<open>post_id\<close> and the enriched post, returned. The database starts from \<open>db\<close>
  and moves only at such a post, to the state that call returned; a post that raises,
  in the enrichment or in the database call, leaves it as it was before that post, and
  the run on a batch with such a post is the run on the batch without it: the posts
  after it are handled as if it had not been there. The post that is sent carries the
  \<^verbatim>\<open>raw_text\<close> of the post and the five results of
  \<^verbatim>\<open>process_text_simple\<close> on it.
\<close>

theorem process_upload_task_isolates_failures:
  "fst (process_upload_task (Inr db) update_one fid posts) =
     \<lparr>status = ''completed'',
      processed_count =
        Some (length (filter (post_succeeds update_one db posts) [0..<length posts])),
      task_error = None\<rparr>
   \<and> snd (process_upload_task (Inr db) update_one fid posts) =
       Some (db_after update_one db posts (length posts))
   \<and> db_after update_one db posts 0 = db
   \<and> (\<forall>i < length posts. post_succeeds update_one db posts i \<longleftrightarrow>
         (\<exists>pid post' db'. enrich_post (posts ! i) = Inr (pid, post')
            \<and> update_one (db_after update_one db posts i) pid post' = Inr db'))
   \<and> (\<forall>i < length posts. \<forall>pid post' db'.
         enrich_post (posts ! i) = Inr (pid, post')
         \<and> update_one (db_after update_one db posts i) pid post' = Inr db' \<longrightarrow>
         db_after update_one db posts (Suc i) = db')
   \<and> (\<forall>i < length posts. \<not> post_succeeds update_one db posts i \<longrightarrow>
         db_after update_one db posts (Suc i) = db_after update_one db posts i)
   \<and> (\<not> post_succeeds update_one db (xs @ bad # ys) (length xs) \<longrightarrow>
         process_upload_task (Inr db) update_one fid (xs @ bad # ys) =
         process_upload_task (Inr db) update_one fid (xs @ ys))
   \<and> (\<forall>pid post'. enrich_post post = Inr (pid, post') \<longrightarrow>
         map_of post (PStr ''post_id'') = Some pid
         \<and> map_of post' (PStr ''post_id'') = Some pid
         \<and> (\<exists>s. dict_get post ''raw_text'' (PStr '''') = PStr s
               \<and> dict_get post' ''raw_text'' (PStr '''') = PStr s
               \<and> dict_get post' ''cleaned_text'' PNone =
                   PStr (cleaned_text (process_text_simple s))
               \<and> dict_get post' ''language'' PNone = PStr (language (process_text_simple s))
               \<and> dict_get post' ''entities'' PNone =
                   PList (map PStr (entities (process_text_simple s)))
               \<and> dict_get post' ''sentiment'' PNone = PStr (sentiment (process_text_simple s))
               \<and> dict_get post' ''sentiment_confidence'' PNone =
                   PFloat (sentiment_confidence (process_text_simple s))))"
proof -
  have a: "process_posts update_one db 0 posts =
             (db_after update_one db posts (length posts),
              length (filter (post_succeeds update_one db posts) [0..<length posts]))"
    using count_is_successes[of update_one db posts] by (simp add: db_after_def prod_eq_iff)
  have a1: "fst (process_upload_task (Inr db) update_one fid posts) =
     \<lparr>status = ''completed'',
      processed_count =
        Some (length (filter (post_succeeds update_one db posts) [0..<length posts])),
      task_error = None\<rparr>"
    using a by (simp add: process_upload_task_def)
  have a2: "snd (process_upload_task (Inr db) update_one fid posts) =
       Some (db_after update_one db posts (length posts))"
    using a by (simp add: process_upload_task_def)
  have z: "db_after update_one db posts 0 = db" by (simp add: db_after_def)
  have iff: "\<forall>i < length posts. post_succeeds update_one db posts i \<longleftrightarrow>
         (\<exists>pid post' db'. enrich_post (posts ! i) = Inr (pid, post')
            \<and> update_one (db_after update_one db posts i) pid post' = Inr db')"
    by (simp add: post_succeeds_iff)
  have s: "\<forall>i < length posts. \<forall>pid post' db'.
         enrich_post (posts ! i) = Inr (pid, post')
         \<and> update_one (db_after update_one db posts i) pid post' = Inr db' \<longrightarrow>
         db_after update_one db posts (Suc i) = db'"
    by (auto simp: db_after_success)
  have b: "\<forall>i < length posts. \<not> post_succeeds update_one db posts i \<longrightarrow>
         db_after update_one db posts (Suc i) = db_after update_one db posts i"
    by (auto simp: db_after_step post_succeeds_loop split: sum.splits)
  have c: "\<not> post_succeeds update_one db (xs @ bad # ys) (length xs) \<longrightarrow>
         process_upload_task (Inr db) update_one fid (xs @ bad # ys) =
         process_upload_task (Inr db) update_one fid (xs @ ys)"
    by (simp add: process_upload_task_def failing_post_removable)
  have e: "\<forall>pid post'. enrich_post post = Inr (pid, post') \<longrightarrow>
         map_of post (PStr ''post_id'') = Some pid
         \<and> map_of post' (PStr ''post_id'') = Some pid
         \<and> (\<exists>s. dict_get post ''raw_text'' (PStr '''') = PStr s
               \<and> dict_get post' ''raw_text'' (PStr '''') = PStr s
               \<and> dict_get post' ''cleaned_text'' PNone =
                   PStr (cleaned_text (process_text_simple s))
               \<and> dict_get post' ''language'' PNone = PStr (language (process_text_simple s))
               \<and> dict_get post' ''entities'' PNone =
                   PList (map PStr (entities (process_text_simple s)))
               \<and> dict_get post' ''sentiment'' PNone = PStr (sentiment (process_text_simple s))
               \<and> dict_get post' ''sentiment_confidence'' PNone =
                   PFloat (sentiment_confidence (process_text_simple s)))"
    using enrich_post_result[of post] by blast
  from a1 a2 z iff s b c e show ?thesis by (intro conjI)
qed

theorem process_upload_task_isolates_failures_witness:
  "\<not> post_succeeds sample_update_one sample_db sample_posts 1
   \<and> db_after sample_update_one sample_db sample_posts 2 =
       db_after sample_update_one sample_db sample_posts 1
   \<and> fst (process_upload_task (Inr sample_db) sample_update_one ''f1'' sample_posts) =
       \<lparr>status = ''completed'', processed_count = Some 2, task_error = None\<rparr>
   \<and> map (\<lambda>doc. [dict_get doc ''post_id'' PNone, dict_get doc ''cleaned_text'' PNone,
                    dict_get doc ''sentiment'' PNone])
        (case snd (process_upload_task (Inr sample_db) sample_update_one ''f1'' sample_posts) of
           Some docs \<Rightarrow> docs
         | None \<Rightarrow> []) =
       [[PStr ''p4'', PStr ''bad'', PStr ''negative''],
        [PStr ''p1'', PStr ''good'', PStr ''positive'']]"
proof -
  have n: "\<not> post_succeeds sample_update_one sample_db sample_posts 1" by code_simp
  have l: "(1::nat) < length sample_posts" "length sample_posts = 4"
    by (simp_all add: sample_posts_def)
  have e: "length (filter (post_succeeds sample_update_one sample_db sample_posts)
                     [0..<length sample_posts]) = 2"
    by code_simp
  have d: "map (\<lambda>doc. [dict_get doc ''post_id'' PNone, dict_get doc ''cleaned_text'' PNone,
                    dict_get doc ''sentiment'' PNone])
             (db_after sample_update_one sample_db sample_posts 4) =
           [[PStr ''p4'', PStr ''bad'', PStr ''negative''],
            [PStr ''p1'', PStr ''good'', PStr ''positive'']]"
    by code_simp
  note t = process_upload_task_isolates_failures
             [of sample_db sample_update_one "''f1''" sample_posts]
  from t have t1: "fst (process_upload_task (Inr sample_db) sample_update_one ''f1'' sample_posts) =
       \<lparr>status = ''completed'', processed_count = Some 2, task_error = None\<rparr>"
    using e by simp
  from t have t2: "snd (process_upload_task (Inr sample_db) sample_update_one ''f1'' sample_posts) =
       Some (db_after sample_update_one sample_db sample_posts 4)"
    using l(2) by simp
  from t n l(1) have t3: "db_after sample_update_one sample_db sample_posts 2 =
       db_after sample_update_one sample_db sample_posts 1"
    by (auto simp: numeral_2_eq_2)
  from n t1 t2 t3 d show ?thesis by simp
qed

section \<open>Properties of the format parsers and of upload\_file\<close>

lemma normalize_posts_not_ValueError: "normalize_posts E uids k items \<noteq> Inl ValueError"
  by (induction E uids k items rule: normalize_posts.induct) (auto split: sum.splits)

lemma py_iter_not_ValueError: "py_iter v \<noteq> Inl ValueError"
  by (cases v) (auto simp: py_iter_def)

text \<open>The root of the document decides between the posts and ValueError: the error
  is raised exactly when the parsed value is neither an array nor an object with the key
  \<^verbatim>\<open>posts\<close>.\<close>

lemma parse_json_data_ValueError_iff:
  "parse_json_data E uids data = Inl ValueError \<longleftrightarrow> \<not> json_root_ok data"
  using py_iter_not_ValueError normalize_posts_not_ValueError
  by (cases data) (auto simp: parse_json_data_def json_root_ok_def split: option.splits sum.splits)

text \<open>
  C7: \<^verbatim>\<open>parse_json_file\<close> takes a top-level array, or an object with the key
  \<^verbatim>\<open>posts\<close>, and produces normalized records from it. The code misses this on an
  array of records one of which has the \<^verbatim>\<open>raw_text\<close> \<^verbatim>\<open>null\<close>: for
  \<^verbatim>\<open>[{"text": "ok"}, {"raw_text": null, "text": "t"}]\<close> the progress line of the
  loop slices \<^verbatim>\<open>post.get('raw_text', 'no_text')\<close>, which is \<^verbatim>\<open>None\<close>, and
  raises TypeError outside any handler. No record is returned, the valid first one
  neither, and \<^verbatim>\<open>upload_file\<close> answers 400. \<^verbatim>\<open>normalize_post_data\<close> itself
  accepts the second record, with the text taken from \<^verbatim>\<open>text\<close>, and the loop of
  \<^verbatim>\<open>parse_csv_file\<close>, which has no such line, returns both posts for the same
  two records.
\<close>

theorem parse_json_null_raw_text_aborts:
  "parse_json_data sample_env (sample_tokens 0)
     (PList [PDict [(PStr ''text'', PStr ''ok'')],
             PDict [(PStr ''raw_text'', PNone), (PStr ''text'', PStr ''t'')]]) = Inl TypeError
   \<and> upload_file sample_env (\<lambda>ev. True) sample_tokens ''f-1'' [] (Some ''posts.json'')
         sample_json_null_text =
       (Inl (HTTPException 400 (ErrorParsingFile TypeError)),
        [FileSaved ''uploads/f-1/posts.json'' sample_json_null_text])
   \<and> normalize_post_data sample_env ''token''
         [(PStr ''raw_text'', PNone), (PStr ''text'', PStr ''t'')] =
       Some (PDict
         [(PStr ''platform'', PStr ''unknown''), (PStr ''post_id'', PStr ''token''),
          (PStr ''raw_text'', PStr ''t''),
          (PStr ''timestamp'', PDatetime (Datetime 2026 1 1 12 0 0 0)),
          (PStr ''user_id'', PStr ''''), (PStr ''media'', PList []),
          (PStr ''metadata'', PDict [])])
   \<and> map (\<lambda>p. field p ''raw_text'')
         (normalize_rows sample_env (sample_tokens 0) 0
            [[(PStr ''text'', PStr ''ok'')],
             [(PStr ''raw_text'', PNone), (PStr ''text'', PStr ''t'')]]) =
       [PStr ''ok'', PStr ''t'']"
  by code_simp



lemma normalize_rows_accepted: "normalize_rows E uids k rows = accepted_posts E uids k rows"
  by (induction rows arbitrary: k) (auto split: option.splits)

lemma parse_walked_Cons:
  "parse_walked E U k (f # rest) =
     (case parse_entry E U k f of
        Inl e \<Rightarrow> Inl e
      | Inr ps \<Rightarrow> (case parse_walked E U (Suc k) rest of
                      Inl e \<Rightarrow> Inl e
                    | Inr qs \<Rightarrow> Inr (ps @ qs)))"
  by (cases f) (simp add: parse_entry_def split: sum.splits)

lemma parse_walked_all_ok:
  "\<forall>(i, f) \<in> set (List.enumerate k files). \<exists>ps. parse_entry E U i f = Inr ps \<Longrightarrow>
   parse_walked E U k files =
     Inr (concat (map (\<lambda>(i, f). case parse_entry E U i f of Inr ps \<Rightarrow> ps | Inl e \<Rightarrow> [])
                      (List.enumerate k files)))"
proof (induction files arbitrary: k)
  case Nil
  then show ?case by simp
next
  case (Cons f files)
  from Cons.prems obtain ps where ps: "parse_entry E U k f = Inr ps" by auto
  from Cons.prems have "\<forall>(i, f) \<in> set (List.enumerate (Suc k) files). \<exists>ps. parse_entry E U i f = Inr ps"
    by auto
  from Cons.IH[OF this] ps show ?case by (simp add: parse_walked_Cons)
qed

lemma parse_walked_some_fails:
  "(i, f) \<in> set (List.enumerate k files) \<Longrightarrow> parse_entry E U i f = Inl e \<Longrightarrow>
   \<exists>e'. parse_walked E U k files = Inl e'"
proof (induction files arbitrary: k)
  case Nil
  then show ?case by simp
next
  case (Cons g files)
  show ?case
  proof (cases "(i, f) = (k, g)")
    case True
    then show ?thesis using Cons.prems by (simp add: parse_walked_Cons)
  next
    case False
    then have "(i, f) \<in> set (List.enumerate (Suc k) files)" using Cons.prems by auto
    from Cons.IH[OF this Cons.prems(2)] show ?thesis
      by (auto simp: parse_walked_Cons split: sum.splits)
  qed
qed

text \<open>
  C8, as the specification states it: in an archive with a valid JSON file of three
  posts and a corrupt CSV file, the JSON posts are still returned and the CSV never makes
  the whole upload fail. With a CSV file that is not UTF-8 text the code raises
  UnicodeDecodeError out of \<^verbatim>\<open>parse_zip_file\<close>, and the three JSON posts are lost.
\<close>

theorem parse_zip_undecodable_csv_counterexample:
  "parse_zip_file sample_env sample_tokens sample_archive = Inl UnicodeDecodeError"
  by code_simp

text \<open>
  C8, amended: \<^verbatim>\<open>parse_zip_file\<close> returns the posts of all \<^verbatim>\<open>.json\<close> and
  \<^verbatim>\<open>.csv\<close> files it finds, in the order found, when the parser of each of them
  returns; when the parser of one of them raises, the whole call raises. A CSV file
  that reads as UTF-8 text and on whose lines the CSV reader raises nothing does not
  raise, whatever its rows: it contributes the normalized posts of its accepted rows,
  which may be none. So with a valid JSON file of three posts and a CSV file that is
  malformed only in its rows, the JSON posts are returned with the accepted CSV rows.
\<close>

theorem parse_zip_all_or_nothing:
  assumes "extract_walk E zbytes = Inr files"
  shows "((\<forall>(i, f) \<in> set (List.enumerate 0 files). \<exists>ps. parse_entry E U i f = Inr ps) \<longrightarrow>
           parse_zip_file E U zbytes =
             Inr (concat (map (\<lambda>(i, f). case parse_entry E U i f of Inr ps \<Rightarrow> ps | Inl e \<Rightarrow> [])
                              (List.enumerate 0 files))))
       \<and> ((\<exists>(i, f) \<in> set (List.enumerate 0 files). \<exists>e. parse_entry E U i f = Inl e) \<longrightarrow>
           (\<exists>e. parse_zip_file E U zbytes = Inl e))
       \<and> (decode_utf8 E cbytes = Some content \<and> dict_reader E (split_lines content) = Inr rows \<longrightarrow>
           parse_csv_file E uids cbytes = Inr (accepted_posts E uids 0 rows))"
proof -
  have s: "split_lines c \<noteq> []" for c by (induction c) (auto split: list.splits)
  have c: "decode_utf8 E cbytes = Some content \<and> dict_reader E (split_lines content) = Inr rows \<longrightarrow>
           parse_csv_file E uids cbytes = Inr (accepted_posts E uids 0 rows)"
    by (simp add: parse_csv_file_def Let_def s normalize_rows_accepted)
  have a: "(\<forall>(i, f) \<in> set (List.enumerate 0 files). \<exists>ps. parse_entry E U i f = Inr ps) \<longrightarrow>
           parse_zip_file E U zbytes =
             Inr (concat (map (\<lambda>(i, f). case parse_entry E U i f of Inr ps \<Rightarrow> ps | Inl e \<Rightarrow> [])
                              (List.enumerate 0 files)))"
    using assms parse_walked_all_ok[of 0 files E U] by (simp add: parse_zip_file_def)
  have b: "(\<exists>(i, f) \<in> set (List.enumerate 0 files). \<exists>e. parse_entry E U i f = Inl e) \<longrightarrow>
           (\<exists>e. parse_zip_file E U zbytes = Inl e)"
    using assms parse_walked_some_fails[of _ _ 0 files E U] by (auto simp: parse_zip_file_def)
  show ?thesis using a b c by blast
qed

theorem parse_zip_all_or_nothing_witness:
  "map (\<lambda>p. field p ''raw_text'')
     (case parse_zip_file sample_env sample_tokens sample_archive_rows of Inr ps \<Rightarrow> ps | Inl e \<Rightarrow> []) =
   [PStr ''a'', PStr ''b'', PStr ''c'', PStr ''hello'', PStr ''Post from reddit platform'']"
proof -
  let ?files = "[(''bundle.zip'', sample_archive_rows), (''data.json'', sample_json_text),
                (''rows.csv'', sample_csv_text)]"
  let ?out = "concat (map (\<lambda>(i, f). case parse_entry sample_env sample_tokens i f of Inr ps \<Rightarrow> ps | Inl e \<Rightarrow> [])
                              (List.enumerate 0 ?files))"
  have w: "extract_walk sample_env sample_archive_rows = Inr ?files" by code_simp
  have e0: "parse_entry sample_env sample_tokens 0 (''bundle.zip'', sample_archive_rows) = Inr []"
    by code_simp
  have e1: "parse_entry sample_env sample_tokens 1 (''data.json'', sample_json_text) =
              Inr (accepted_posts sample_env (sample_tokens 1) 0
                [[(PStr ''id'', PStr ''1''), (PStr ''text'', PStr ''a'')],
                 [(PStr ''id'', PStr ''2''), (PStr ''text'', PStr ''b'')],
                 [(PStr ''id'', PStr ''3''), (PStr ''text'', PStr ''c'')]])"
    by code_simp
  have e2: "parse_entry sample_env sample_tokens 2 (''rows.csv'', sample_csv_text) =
              Inr (accepted_posts sample_env (sample_tokens 2) 0 sample_csv_rows)"
    by code_simp
  have ok: "\<forall>(i, f) \<in> set (List.enumerate 0 ?files). \<exists>ps. parse_entry sample_env sample_tokens i f = Inr ps"
    using e0 e1 e2 by (simp add: numeral_2_eq_2)
  have v: "map (\<lambda>p. field p ''raw_text'') ?out =
     [PStr ''a'', PStr ''b'', PStr ''c'', PStr ''hello'', PStr ''Post from reddit platform'']"
    by code_simp
  from parse_zip_all_or_nothing[OF w, of sample_tokens] ok
  have "parse_zip_file sample_env sample_tokens sample_archive_rows = Inr ?out" by blast
  with v show ?thesis by simp
qed

end
